theory Spec2Isabelle
  imports Complex_Main
begin

text \<open>
  The simulation view \<open>DigitalTwinSimulation\<close> of the control-room dashboard: the
  derived metrics computed from the simulation parameters, the telemetry poll with its
  sample buffer and its dispatch on the failure threshold, the manual prediction request,
  and the lookup of the latest sample in a telemetry payload. Effects are explicit: a
  handler takes the state and the outcomes of its fetches and returns the new state, the
  requests it issued and the error it caught.
\<close>

section \<open>JavaScript numbers\<close>

text \<open>
  A JavaScript \<open>number\<close> is a binary64 value: a finite number, one of the two
  infinities, or NaN. The finite values are carried as reals. An arithmetic result
  whose magnitude reaches the binary64 overflow threshold \<open>2^1024 - 2^970\<close> becomes an
  infinity, as round-to-nearest does; the rounding error of a result that stays in range
  is left out, and negative zero is identified with zero. The general theorems below do
  not depend on a finite result being exact: they rest on the special values, on bounds
  with a wide margin and on the clamping. The values computed at concrete inputs are far
  from a rounding boundary.
\<close>

datatype jsnum = Num real | PosInf | NegInf | NaN

definition DBL_LIMIT :: real where
  "DBL_LIMIT = 2 ^ 1024 - 2 ^ 970"

definition fin :: "real \<Rightarrow> jsnum" where
  "fin x = (if DBL_LIMIT \<le> x then PosInf else if x \<le> - DBL_LIMIT then NegInf else Num x)"

fun js_neg :: "jsnum \<Rightarrow> jsnum" where
  "js_neg (Num a) = Num (- a)"
| "js_neg PosInf = NegInf"
| "js_neg NegInf = PosInf"
| "js_neg NaN = NaN"

fun js_add :: "jsnum \<Rightarrow> jsnum \<Rightarrow> jsnum" where
  "js_add NaN y = NaN"
| "js_add (Num a) (Num b) = fin (a + b)"
| "js_add (Num a) y = y"
| "js_add PosInf NegInf = NaN"
| "js_add PosInf NaN = NaN"
| "js_add PosInf y = PosInf"
| "js_add NegInf PosInf = NaN"
| "js_add NegInf NaN = NaN"
| "js_add NegInf y = NegInf"

definition js_sub :: "jsnum \<Rightarrow> jsnum \<Rightarrow> jsnum" where
  "js_sub x y = js_add x (js_neg y)"

fun js_sign :: "jsnum \<Rightarrow> int" where
  "js_sign (Num a) = (if a < 0 then - 1 else if a = 0 then 0 else 1)"
| "js_sign PosInf = 1"
| "js_sign NegInf = - 1"
| "js_sign NaN = 0"

definition signed_inf :: "int \<Rightarrow> jsnum" where
  "signed_inf s = (if s = 0 then NaN else if 0 < s then PosInf else NegInf)"

fun js_mul :: "jsnum \<Rightarrow> jsnum \<Rightarrow> jsnum" where
  "js_mul NaN y = NaN"
| "js_mul x NaN = NaN"
| "js_mul (Num a) (Num b) = fin (a * b)"
| "js_mul x y = signed_inf (js_sign x * js_sign y)"

fun js_div :: "jsnum \<Rightarrow> jsnum \<Rightarrow> jsnum" where
  "js_div NaN y = NaN"
| "js_div x NaN = NaN"
| "js_div (Num a) (Num b) = (if b = 0 then signed_inf (js_sign (Num a)) else fin (a / b))"
| "js_div (Num a) y = Num 0"
| "js_div x (Num b) = signed_inf (js_sign x * (if b < 0 then - 1 else 1))"
| "js_div x y = NaN"

text \<open>The relational operators: every comparison with NaN is false.\<close>

fun js_lt :: "jsnum \<Rightarrow> jsnum \<Rightarrow> bool" where
  "js_lt NaN y = False"
| "js_lt x NaN = False"
| "js_lt (Num a) (Num b) = (a < b)"
| "js_lt x PosInf = (x \<noteq> PosInf)"
| "js_lt NegInf y = (y \<noteq> NegInf)"
| "js_lt x y = False"

definition js_gt :: "jsnum \<Rightarrow> jsnum \<Rightarrow> bool" where
  "js_gt x y = js_lt y x"

definition js_le :: "jsnum \<Rightarrow> jsnum \<Rightarrow> bool" where
  "js_le x y = (x \<noteq> NaN \<and> y \<noteq> NaN \<and> \<not> js_lt y x)"

definition js_ge :: "jsnum \<Rightarrow> jsnum \<Rightarrow> bool" where
  "js_ge x y = js_le y x"

text \<open>\<open>Math.max\<close> and \<open>Math.min\<close> of two arguments: NaN if either is NaN.\<close>

definition Math_max :: "jsnum \<Rightarrow> jsnum \<Rightarrow> jsnum" where
  "Math_max x y = (if x = NaN \<or> y = NaN then NaN else if js_lt x y then y else x)"

definition Math_min :: "jsnum \<Rightarrow> jsnum \<Rightarrow> jsnum" where
  "Math_min x y = (if x = NaN \<or> y = NaN then NaN else if js_lt y x then y else x)"

text \<open>\<open>Math.round\<close>: the integer nearest to the argument, a tie going up.\<close>

fun Math_round :: "jsnum \<Rightarrow> jsnum" where
  "Math_round (Num a) = Num (of_int \<lfloor>a + 1 / 2\<rfloor>)"
| "Math_round x = x"

text \<open>\<open>Math.sqrt\<close> and \<open>Math.pow(x, 2)\<close>.\<close>

fun Math_sqrt :: "jsnum \<Rightarrow> jsnum" where
  "Math_sqrt (Num a) = (if a < 0 then NaN else Num (sqrt a))"
| "Math_sqrt PosInf = PosInf"
| "Math_sqrt x = NaN"

definition Math_pow2 :: "jsnum \<Rightarrow> jsnum" where
  "Math_pow2 x = js_mul x x"

text \<open>
  \<open>parseFloat(x.toFixed(d))\<close>. For a finite \<open>x\<close> below \<open>10^21\<close> in magnitude,
  \<open>toFixed\<close> prints the integer \<open>n\<close> nearest to \<open>x * 10^d\<close> (the larger one at a
  tie, on the magnitude of \<open>x\<close>) divided by \<open>10^d\<close>; from \<open>10^21\<close> on, and for the
  infinities and NaN, it prints the number as \<open>String\<close> does, which \<open>parseFloat\<close>
  reads back unchanged.
\<close>

definition round_half_away :: "real \<Rightarrow> int" where
  "round_half_away x = (if x < 0 then - \<lfloor>- x + 1 / 2\<rfloor> else \<lfloor>x + 1 / 2\<rfloor>)"

fun toFixed_parsed :: "nat \<Rightarrow> jsnum \<Rightarrow> jsnum" where
  "toFixed_parsed d (Num a) =
     (if 10 ^ 21 \<le> \<bar>a\<bar> then Num a
      else Num (of_int (round_half_away (a * 10 ^ d)) / 10 ^ d))"
| "toFixed_parsed d x = x"

text \<open>\<open>const clamp = (value, min, max) => Math.min(max, Math.max(min, value))\<close>\<close>

definition clamp :: "jsnum \<Rightarrow> jsnum \<Rightarrow> jsnum \<Rightarrow> jsnum" where
  "clamp v lo hi = Math_min hi (Math_max lo v)"

text \<open>\<open>const formatNumber = (value) => (Number.isFinite(value) ? value : 0)\<close>\<close>

fun formatNumber :: "jsnum \<Rightarrow> jsnum" where
  "formatNumber (Num a) = Num a"
| "formatNumber x = Num 0"

section \<open>The data model\<close>

text \<open>The interface \<open>SimulationParams\<close> of \<open>types/machine.ts\<close>, in declaration order.\<close>

record SimulationParams =
  rpm :: jsnum
  torque :: jsnum
  loadWeight :: jsnum
  motorTemp :: jsnum
  windingTemp :: jsnum
  bearingTemp :: jsnum
  ambientTemp :: jsnum
  vibrationX :: jsnum
  vibrationY :: jsnum
  vibrationZ :: jsnum
  voltage :: jsnum
  current :: jsnum
  powerConsumption :: jsnum
  powerFactor :: jsnum
  harmonicDistortion :: jsnum
  efficiency :: jsnum
  insulationResistance :: jsnum
  operatingHours :: jsnum
  startStopCycles :: jsnum
  wearLevel :: jsnum
  bearingWear :: jsnum
  humidity :: jsnum

definition defaultParams :: SimulationParams where
  "defaultParams = \<lparr>
     rpm = Num 980, torque = Num 120, loadWeight = Num 62, motorTemp = Num 188,
     windingTemp = Num 188, bearingTemp = Num 162, ambientTemp = Num 28,
     vibrationX = Num (21 / 10), vibrationY = Num (24 / 10), vibrationZ = Num (22 / 10),
     voltage = Num 400, current = Num 22, powerConsumption = Num 18,
     powerFactor = Num (88 / 100), harmonicDistortion = Num (222 / 100),
     efficiency = Num 88, insulationResistance = Num 12,
     operatingHours = Num 4200, startStopCycles = Num 14,
     wearLevel = Num 18, bearingWear = Num 28, humidity = Num 48 \<rparr>"

section \<open>Derived metrics\<close>

text \<open>The object returned by the \<open>derived\<close> memo of \<open>DigitalTwinSimulation\<close>.\<close>

record derived_metrics =
  d_rpm :: jsnum
  loadPercent :: jsnum
  vibration :: jsnum
  temperature :: jsnum
  riskScore :: jsnum
  expectedTemp :: jsnum
  expectedVibration :: jsnum
  remainingLife :: jsnum

definition derived :: "SimulationParams \<Rightarrow> derived_metrics" where
  "derived params =
    (let rpm' = rpm params;
         loadPercent' = clamp (Math_round (loadWeight params)) (Num 0) (Num 100);
         baseVibration =
           js_div (js_add (js_add (vibrationX params) (vibrationY params)) (vibrationZ params))
             (Num 3);
         vibration' = toFixed_parsed 2 baseVibration;
         temperature' =
           Math_round (js_div (js_add (motorTemp params) (bearingTemp params)) (Num 2));
         powerPenalty =
           js_mul (Math_max (Num 0) (js_sub (Num 1) (powerFactor params))) (Num 20);
         thermalStress =
           js_mul (Math_max (Num 0) (js_sub (ambientTemp params) (Num 25))) (Num (3 / 10));
         wearPenalty =
           js_add (js_mul (bearingWear params) (Num (12 / 100)))
                  (js_mul (wearLevel params) (Num (8 / 100)));
         riskScore' =
           clamp
             (Math_round
               (js_add (js_add (js_add (js_add (js_add (js_add
                  (js_mul (js_div rpm' (Num 2000)) (Num 18))
                  (js_mul (js_div (torque params) (Num 200)) (Num 12)))
                  (js_mul (js_div vibration' (Num 10)) (Num 15)))
                  (js_mul (js_div temperature' (Num 220)) (Num 12)))
                  powerPenalty)
                  thermalStress)
                  wearPenalty))
             (Num 0) (Num 100);
         expectedTemp' = Math_round temperature';
         expectedVibration' = toFixed_parsed 1 vibration';
         remainingLife' =
           Math_max (Num 120)
             (Math_round
               (js_sub (js_sub (js_sub (Num 1400) (js_mul riskScore' (Num 8)))
                  (js_div (operatingHours params) (Num 6)))
                  (js_mul (bearingWear params) (Num 3))))
     in \<lparr> d_rpm = rpm', loadPercent = loadPercent', vibration = vibration',
          temperature = temperature', riskScore = riskScore',
          expectedTemp = expectedTemp', expectedVibration = expectedVibration',
          remainingLife = remainingLife' \<rparr>)"

section \<open>Predicates on parameter objects\<close>








section \<open>Telemetry samples and payloads\<close>

text \<open>
  The type \<open>TelemetrySample\<close>: the 22 numeric fields of \<open>SimulationParams\<close> and five
  more. A machine map \<open>Record<string, TelemetrySample[]>\<close> is the list of its entries
  in the order of \<open>Object.keys\<close>, with distinct keys.
\<close>

record TelemetrySample = SimulationParams +
  timestamp :: jsnum
  machineId :: string
  machineName :: string
  vibrationMagnitude :: jsnum
  isRunning :: bool

record TelemetryPayload =
  machines :: "(string \<times> TelemetrySample list) list option"

datatype telemetry_json =
    JsonNull
  | JsonArray "TelemetrySample list"
  | JsonObject TelemetryPayload

section \<open>Errors\<close>

text \<open>A thrown value or a rejection: the kind of error and its \<open>message\<close>.\<close>

datatype js_error = TypeError string | SyntaxError string | Error string

fun message :: "js_error \<Rightarrow> string" where
  "message (TypeError m) = m"
| "message (SyntaxError m) = m"
| "message (Error m) = m"

text \<open>
  Reading \<open>x.length\<close>, \<open>x[i]\<close>, \<open>x[key]\<close> or \<open>Object.keys(x)\<close> throws a
  TypeError when \<open>x\<close> is null or undefined (\<open>None\<close>); an index out of range and a
  key that is not there read \<open>undefined\<close>.
\<close>

definition js_length :: "'a list option \<Rightarrow> js_error + nat" where
  "js_length x = (case x of None \<Rightarrow> Inl (TypeError ''Cannot read properties of null (reading length)'')
     | Some xs \<Rightarrow> Inr (length xs))"

definition js_index :: "'a list option \<Rightarrow> int \<Rightarrow> js_error + 'a option" where
  "js_index x i = (case x of None \<Rightarrow> Inl (TypeError ''Cannot read properties of null'')
     | Some xs \<Rightarrow> Inr (if 0 \<le> i \<and> i < int (length xs) then Some (xs ! nat i) else None))"

definition js_prop :: "(string \<times> 'v) list option \<Rightarrow> string \<Rightarrow> js_error + 'v option" where
  "js_prop x k = (case x of None \<Rightarrow> Inl (TypeError ''Cannot read properties of undefined'')
     | Some kvs \<Rightarrow> Inr (map_of kvs k))"

definition Object_keys :: "('k \<times> 'v) list option \<Rightarrow> js_error + 'k list" where
  "Object_keys x = (case x of None \<Rightarrow> Inl (TypeError ''Cannot convert undefined or null to object'')
     | Some kvs \<Rightarrow> Inr (map fst kvs))"

text \<open>The decimal digits of a natural number, as a template literal prints a status.\<close>

fun show_nat :: "nat \<Rightarrow> string" where
  "show_nat n =
     (if n < 10 then [''0123456789'' ! n] else show_nat (n div 10) @ [''0123456789'' ! (n mod 10)])"

section \<open>The module-level functions\<close>

definition getLatestSample :: "telemetry_json \<Rightarrow> js_error + TelemetrySample option" where
  "getLatestSample payload =
    (case payload of
       JsonNull \<Rightarrow> Inr None
     | JsonArray xs \<Rightarrow>
         (if length xs \<noteq> 0 then js_index (Some xs) (int (length xs) - 1) else Inr None)
     | JsonObject obj \<Rightarrow>
         (if machines obj = None then Inr None
          else
            (case Object_keys (machines obj) of
               Inl e \<Rightarrow> Inl e
             | Inr keys \<Rightarrow>
                 (let machineKey = (case keys of [] \<Rightarrow> None | k # ks \<Rightarrow> Some k)
                  in
                  case (case machineKey of
                          None \<Rightarrow> Inr None
                        | Some k \<Rightarrow> if k = [] then Inr None else js_prop (machines obj) k) of
                    Inl e \<Rightarrow> Inl e
                  | Inr series \<Rightarrow>
                      if series = None then Inr None
                      else
                        (case js_length series of
                           Inl e \<Rightarrow> Inl e
                         | Inr n \<Rightarrow>
                             if n = 0 then Inr None else js_index series (int n - 1))))))"

definition mapSampleToParams :: "TelemetrySample \<Rightarrow> SimulationParams \<Rightarrow> SimulationParams" where
  "mapSampleToParams sample previous = previous \<lparr>
     rpm := Math_round (rpm sample),
     torque := Math_round (torque sample),
     loadWeight := Math_round (loadWeight sample),
     vibrationX := vibrationX sample,
     vibrationY := vibrationY sample,
     vibrationZ := vibrationZ sample,
     voltage := voltage sample,
     current := current sample,
     powerConsumption := powerConsumption sample,
     powerFactor := powerFactor sample,
     harmonicDistortion := harmonicDistortion sample,
     efficiency := efficiency sample,
     insulationResistance := insulationResistance sample,
     motorTemp := Math_round (motorTemp sample),
     windingTemp := Math_round (windingTemp sample),
     bearingTemp := Math_round (bearingTemp sample),
     ambientTemp := Math_round (ambientTemp sample),
     operatingHours := Math_round (operatingHours sample),
     startStopCycles := Math_round (startStopCycles sample),
     wearLevel := Math_round (wearLevel sample),
     bearingWear := Math_round (bearingWear sample),
     humidity := Math_round (humidity sample) \<rparr>"

text \<open>\<open>buildPredictPayload\<close>: the \<open>sequence\<close> of the body, each sample copied field by field.\<close>

definition buildPredictPayload :: "TelemetrySample list \<Rightarrow> TelemetrySample list" where
  "buildPredictPayload sequence = map (\<lambda>sample. sample \<lparr>
     rpm := rpm sample,
     torque := torque sample,
     loadWeight := loadWeight sample,
     motorTemp := motorTemp sample,
     windingTemp := windingTemp sample,
     bearingTemp := bearingTemp sample,
     ambientTemp := ambientTemp sample,
     vibrationX := vibrationX sample,
     vibrationY := vibrationY sample,
     vibrationZ := vibrationZ sample,
     vibrationMagnitude := vibrationMagnitude sample,
     voltage := voltage sample,
     current := current sample,
     powerConsumption := powerConsumption sample,
     powerFactor := powerFactor sample,
     harmonicDistortion := harmonicDistortion sample,
     efficiency := efficiency sample,
     operatingHours := operatingHours sample,
     startStopCycles := startStopCycles sample,
     wearLevel := wearLevel sample,
     bearingWear := bearingWear sample,
     insulationResistance := insulationResistance sample,
     humidity := humidity sample,
     isRunning := isRunning sample,
     timestamp := timestamp sample,
     machineId := machineId sample,
     machineName := machineName sample \<rparr>) sequence"


section \<open>Configuration\<close>

text \<open>
  The build-time environment \<open>import.meta.env\<close>. A numeric entry holds what
  \<open>Number\<close> makes of the variable; the poll period is a whole number of milliseconds.
\<close>

record env =
  VITE_TELEMETRY_URL :: "string option"
  VITE_PREDICT_URL :: "string option"
  VITE_HARDWARE_URL :: "string option"
  VITE_RETRAIN_URL :: "string option"
  VITE_TELEMETRY_POLL_MS :: "nat option"
  VITE_FAILURE_THRESHOLD :: "jsnum option"

definition nullish :: "'a option \<Rightarrow> 'a \<Rightarrow> 'a" where
  "nullish x d = (case x of None \<Rightarrow> d | Some v \<Rightarrow> v)"

definition TELEMETRY_URL :: "env \<Rightarrow> string" where
  "TELEMETRY_URL e = nullish (VITE_TELEMETRY_URL e) ''http://localhost:8000/telemetry''"

definition PREDICT_URL :: "env \<Rightarrow> string" where
  "PREDICT_URL e = nullish (VITE_PREDICT_URL e) ''http://localhost:8000/predict''"

definition HARDWARE_URL :: "env \<Rightarrow> string" where
  "HARDWARE_URL e = nullish (VITE_HARDWARE_URL e) ''http://localhost:8000/hardware''"

definition RETRAIN_URL :: "env \<Rightarrow> string" where
  "RETRAIN_URL e = nullish (VITE_RETRAIN_URL e) ''http://localhost:8000/retrain''"



definition default_env :: env where
  "default_env = \<lparr> VITE_TELEMETRY_URL = None, VITE_PREDICT_URL = None, VITE_HARDWARE_URL = None,
     VITE_RETRAIN_URL = None, VITE_TELEMETRY_POLL_MS = None, VITE_FAILURE_THRESHOLD = None \<rparr>"

section \<open>Requests and responses\<close>

datatype jsval = JNumber jsnum | JString string | JBoolean bool

record dispatch_payload =
  dp_failure_probability :: jsnum
  dp_timestamp :: jsnum
  dp_machineId :: string
  dp_machineName :: string
  dp_sample :: TelemetrySample

text \<open>
  The body of a request: none, \<open>{ sequence }\<close>, the dispatch payload with or without a
  \<open>sequence\<close>, or the flat object of the manual request (its entries in order).
\<close>

datatype body =
    NoBody
  | PredictBody "TelemetrySample list"
  | DispatchBody dispatch_payload "TelemetrySample list option"
  | FlatBody "(string \<times> jsval) list"

record request =
  req_method :: string
  req_url :: string
  req_body :: body

text \<open>
  What a \<open>fetch\<close> comes to: the promise rejects; or it resolves with \<open>ok\<close> false, a
  status and a body text (reading which can reject as well); or with \<open>ok\<close> true and a
  body that \<open>json()\<close> rejects; or with \<open>ok\<close> true and a JSON value.
\<close>

datatype 'a response =
    Rejects js_error
  | NotOk nat "js_error + string"
  | BadJson js_error
  | Json 'a

text \<open>The three fields of the predict response that the poll reads (absent or null: \<open>None\<close>).\<close>

record predict_json =
  pj_failure_probability :: "jsnum option"
  pj_failureProbability :: "jsnum option"
  pj_failure :: "jsnum option"

section \<open>The state of the component\<close>

datatype impact = low | medium | high

record simulated_result =
  predictedFailureRisk :: jsnum
  expectedTemperature :: jsnum
  sr_expectedVibration :: jsnum
  productionImpact :: impact
  sr_remainingLife :: jsnum

text \<open>\<open>result\<close> holds what \<open>setResult\<close> was given: the API's response or a simulated result.\<close>

datatype stored_result = ApiResult string | Simulated simulated_result

record twin_state =
  params :: SimulationParams
  result :: "stored_result option"
  isSimulating :: bool
  failureProbability :: "jsnum option"
  lastUpdate :: "jsnum option"
  isPredicting :: bool
  predictionStatus :: "string option"
  telemetryBuffer :: "TelemetrySample list"

definition initial_state :: twin_state where
  "initial_state = \<lparr> params = defaultParams, result = None, isSimulating = False,
     failureProbability = None, lastUpdate = None, isPredicting = False,
     predictionStatus = None, telemetryBuffer = [] \<rparr>"

text \<open>Callbacks handed to the timers, and what an effect or handler asks the runtime to do.\<close>

datatype callback = FetchTelemetry | ClearPredictionStatus | FinishSimulation derived_metrics

datatype sched = CallNow callback | Every nat callback | After nat callback

section \<open>The telemetry poll\<close>

text \<open>
  What one call of \<open>fetchTelemetry\<close> meets: the outcomes of its three fetches, the
  clock, and the value of the effect's \<open>active\<close> flag when the telemetry awaits
  resume and when the predict awaits resume.
\<close>

record poll_env =
  telemetry_response :: "telemetry_json response"
  predict_response :: "predict_json response"
  dispatch_response :: "unit response"
  now :: jsnum
  active_after_telemetry :: bool
  active_after_predict :: bool

text \<open>
  What the call leaves: the state, the requests it issued in order, the error its
  \<open>catch\<close> received, and the rejection of a promise nobody awaits.
\<close>

record poll_outcome =
  state_after :: twin_state
  requests :: "request list"
  caught :: "js_error option"
  unhandled :: "js_error option"

text \<open>Awaiting \<open>fetch\<close>, checking \<open>ok\<close> and awaiting \<open>json()\<close>, as the poll does.\<close>

definition await_json :: "string \<Rightarrow> 'a response \<Rightarrow> js_error + 'a" where
  "await_json label r =
    (case r of
       Rejects e \<Rightarrow> Inl e
     | NotOk status t \<Rightarrow> Inl (Error (label @ '' error '' @ show_nat status))
     | BadJson e \<Rightarrow> Inl e
     | Json v \<Rightarrow> Inr v)"

text \<open>Lines 366 to 368: \<open>buffer.push\<close>, then \<open>splice\<close> down to the last 200.\<close>

definition push_sample :: "TelemetrySample \<Rightarrow> TelemetrySample list \<Rightarrow> TelemetrySample list" where
  "push_sample latestSample buffer =
    (let buffer' = buffer @ [latestSample]
     in if length buffer' > 200 then drop (length buffer' - 200) buffer' else buffer')"

text \<open>\<open>buffer.slice(-50)\<close>\<close>

definition slice_last :: "nat \<Rightarrow> 'a list \<Rightarrow> 'a list" where
  "slice_last n xs = drop (length xs - n) xs"

definition nextFailure :: "predict_json \<Rightarrow> jsnum" where
  "nextFailure predictJson =
     nullish (pj_failure_probability predictJson)
       (nullish (pj_failureProbability predictJson)
         (nullish (pj_failure predictJson) (Num 0)))"

text \<open>The \<open>catch\<close> block of \<open>fetchTelemetry\<close>.\<close>

definition on_poll_error :: "bool \<Rightarrow> twin_state \<Rightarrow> twin_state" where
  "on_poll_error active st = (if \<not> active then st else st \<lparr> lastUpdate := None \<rparr>)"

text \<open>The state after lines 362 to 368 of a poll that got the sample \<open>s\<close>.\<close>

definition sampled :: "poll_env \<Rightarrow> TelemetrySample \<Rightarrow> twin_state \<Rightarrow> twin_state" where
  "sampled pe s st = st \<lparr> lastUpdate := Some (now pe),
      params := mapSampleToParams s (params st),
      telemetryBuffer := push_sample s (telemetryBuffer st) \<rparr>"

definition get_request :: "string \<Rightarrow> request" where
  "get_request url = \<lparr> req_method = ''GET'', req_url = url, req_body = NoBody \<rparr>"

definition post_request :: "string \<Rightarrow> body \<Rightarrow> request" where
  "post_request url b = \<lparr> req_method = ''POST'', req_url = url, req_body = b \<rparr>"

definition fetchTelemetry :: "env \<Rightarrow> jsnum \<Rightarrow> poll_env \<Rightarrow> twin_state \<Rightarrow> poll_outcome" where
  "fetchTelemetry e failureThreshold pe st =
    (let telemetry = get_request (TELEMETRY_URL e);
         failed = (\<lambda>active st' reqs err.
           \<lparr> state_after = on_poll_error active st', requests = reqs, caught = Some err,
             unhandled = None \<rparr>)
     in
     case await_json ''Telemetry'' (telemetry_response pe) of
       Inl err \<Rightarrow> failed (active_after_telemetry pe) st [telemetry] err
     | Inr payload \<Rightarrow>
     (case getLatestSample payload of
       Inl err \<Rightarrow> failed (active_after_telemetry pe) st [telemetry] err
     | Inr None \<Rightarrow> failed (active_after_telemetry pe) st [telemetry] (Error ''No telemetry samples'')
     | Inr (Some latestSample) \<Rightarrow>
     if \<not> active_after_telemetry pe
     then \<lparr> state_after = st, requests = [telemetry], caught = None, unhandled = None \<rparr>
     else
       (let st1 = st \<lparr> lastUpdate := Some (now pe),
                       params := mapSampleToParams latestSample (params st),
                       telemetryBuffer := push_sample latestSample (telemetryBuffer st) \<rparr>;
            buffer = telemetryBuffer st1
        in
        if length buffer \<ge> 50 then
          (let sequence = slice_last 50 buffer;
               predict = post_request (PREDICT_URL e) (PredictBody (buildPredictPayload sequence))
           in
           case await_json ''Predict'' (predict_response pe) of
             Inl err \<Rightarrow> failed (active_after_predict pe) st1 [telemetry, predict] err
           | Inr predictJson \<Rightarrow>
             (let nextFailure' = nextFailure predictJson;
                  st2 = st1 \<lparr> failureProbability := Some nextFailure' \<rparr>;
                  isCritical = js_ge nextFailure' failureThreshold;
                  dispatchPayload = \<lparr> dp_failure_probability = nextFailure',
                    dp_timestamp = timestamp latestSample,
                    dp_machineId = machineId latestSample,
                    dp_machineName = machineName latestSample,
                    dp_sample = latestSample \<rparr>;
                  dispatch =
                    (if isCritical
                     then post_request (RETRAIN_URL e) (DispatchBody dispatchPayload (Some sequence))
                     else post_request (HARDWARE_URL e) (DispatchBody dispatchPayload None))
              in \<lparr> state_after = st2, requests = [telemetry, predict, dispatch], caught = None,
                   unhandled = (case dispatch_response pe of Rejects err \<Rightarrow> Some err | _ \<Rightarrow> None) \<rparr>))
        else \<lparr> state_after = st1, requests = [telemetry], caught = None, unhandled = None \<rparr>)))"


text \<open>
  The callbacks an entry makes the runtime run \<open>t\<close> milliseconds after it was
  registered, for a timer that fires on time: \<open>setInterval\<close> fires at every positive
  multiple of its period, \<open>setTimeout\<close> once at its delay.
\<close>

fun due :: "sched \<Rightarrow> nat \<Rightarrow> callback list" where
  "due (CallNow c) t = (if t = 0 then [c] else [])"
| "due (Every ms c) t = (if 0 < t \<and> t mod ms = 0 then [c] else [])"
| "due (After ms c) t = (if t = ms then [c] else [])"

definition due_all :: "sched list \<Rightarrow> nat \<Rightarrow> callback list" where
  "due_all ss t = concat (map (\<lambda>s. due s t) ss)"


section \<open>The manual prediction request\<close>

text \<open>
  Of a \<open>MachineData\<close> record only \<open>id\<close> and \<open>name\<close> are read here. The table
  \<open>machinesData\<close> of the mock data is a parameter.
\<close>

record MachineData =
  md_id :: string
  md_name :: string

text \<open>\<open>machinesData.find(m => m.id === selectedMachineId) || machinesData[0]\<close>\<close>

definition selected_machine :: "MachineData list \<Rightarrow> string \<Rightarrow> MachineData option" where
  "selected_machine machinesData selectedMachineId =
    (case find (\<lambda>m. md_id m = selectedMachineId) machinesData of
       Some m \<Rightarrow> Some m
     | None \<Rightarrow> (case machinesData of [] \<Rightarrow> None | m # ms \<Rightarrow> Some m))"

text \<open>\<open>machine?.name || "Unknown Machine"\<close>\<close>

definition machine_name :: "MachineData option \<Rightarrow> string" where
  "machine_name machine =
    (case machine of
       None \<Rightarrow> ''Unknown Machine''
     | Some m \<Rightarrow> if md_name m = [] then ''Unknown Machine'' else md_name m)"

text \<open>The object literal \<open>payload\<close> of \<open>handleSendToFriend\<close>, entry by entry.\<close>

definition manual_payload ::
    "MachineData option \<Rightarrow> string \<Rightarrow> jsnum \<Rightarrow> SimulationParams \<Rightarrow> (string \<times> jsval) list" where
  "manual_payload machine selectedMachineId now' p =
    [(''timestamp'', JNumber now'),
     (''machineId'', JString selectedMachineId),
     (''machineName'', JString (machine_name machine)),
     (''rpm'', JNumber (rpm p)),
     (''torque'', JNumber (torque p)),
     (''loadWeight'', JNumber (loadWeight p)),
     (''motorTemp'', JNumber (motorTemp p)),
     (''windingTemp'', JNumber (windingTemp p)),
     (''bearingTemp'', JNumber (bearingTemp p)),
     (''ambientTemp'', JNumber (ambientTemp p)),
     (''vibrationX'', JNumber (vibrationX p)),
     (''vibrationY'', JNumber (vibrationY p)),
     (''vibrationZ'', JNumber (vibrationZ p)),
     (''vibrationMagnitude'', JNumber
        (toFixed_parsed 3
          (Math_sqrt
            (js_add (js_add (Math_pow2 (vibrationX p)) (Math_pow2 (vibrationY p)))
               (Math_pow2 (vibrationZ p)))))),
     (''voltage'', JNumber (voltage p)),
     (''current'', JNumber (current p)),
     (''powerConsumption'', JNumber (powerConsumption p)),
     (''powerFactor'', JNumber (powerFactor p)),
     (''harmonicDistortion'', JNumber (harmonicDistortion p)),
     (''efficiency'', JNumber (efficiency p)),
     (''operatingHours'', JNumber (operatingHours p)),
     (''startStopCycles'', JNumber (startStopCycles p)),
     (''wearLevel'', JNumber (wearLevel p)),
     (''bearingWear'', JNumber (bearingWear p)),
     (''insulationResistance'', JNumber (insulationResistance p)),
     (''humidity'', JNumber (humidity p)),
     (''isRunning'', JBoolean (js_gt (rpm p) (Num 0)))]"

record manual_outcome =
  m_state_after :: twin_state
  m_requests :: "request list"
  m_caught :: "js_error option"

text \<open>
  \<open>handleSendToFriend\<close>: the request, then \<open>setResult\<close> and the success message, or
  the \<open>catch\<close> with its \<open>Error:\<close> message; \<open>finally\<close> clears \<open>isPredicting\<close>.
\<close>

definition handleSendToFriend ::
    "MachineData list \<Rightarrow> string \<Rightarrow> jsnum \<Rightarrow> string response \<Rightarrow> twin_state \<Rightarrow> manual_outcome" where
  "handleSendToFriend machinesData selectedMachineId now' res st =
    (let st1 = st \<lparr> isPredicting := True, predictionStatus := None \<rparr>;
         payload = manual_payload (selected_machine machinesData selectedMachineId)
                     selectedMachineId now' (params st1);
         req = post_request ''/api/send_critical_data'' (FlatBody payload);
         outcome =
           (case res of
              Rejects err \<Rightarrow> Inl err
            | NotOk status t \<Rightarrow>
                (case t of
                   Inl err \<Rightarrow> Inl err
                 | Inr errText \<Rightarrow> Inl (Error (if errText = [] then ''Failed to send'' else errText)))
            | BadJson err \<Rightarrow> Inl err
            | Json data \<Rightarrow> Inr data)
     in
     case outcome of
       Inr data \<Rightarrow>
         \<lparr> m_state_after = st1 \<lparr> result := Some (ApiResult data),
                                 predictionStatus := Some ''Prediction received!'',
                                 isPredicting := False \<rparr>,
           m_requests = [req], m_caught = None \<rparr>
     | Inl err \<Rightarrow>
         \<lparr> m_state_after = st1 \<lparr> predictionStatus := Some (''Error: '' @ message err),
                                 isPredicting := False \<rparr>,
           m_requests = [req], m_caught = Some err \<rparr>)"

text \<open>The effect on \<open>predictionStatus\<close>: a truthy status starts a timeout of 3000 ms.\<close>

definition predictionStatusEffect :: "string option \<Rightarrow> sched list" where
  "predictionStatusEffect status =
    (case status of
       None \<Rightarrow> []
     | Some s \<Rightarrow> if s = [] then [] else [After 3000 ClearPredictionStatus])"

section \<open>The other handlers and the callbacks\<close>

definition runSimulation :: "twin_state \<Rightarrow> twin_state \<times> sched list" where
  "runSimulation st =
     (st \<lparr> isSimulating := True \<rparr>, [After 1600 (FinishSimulation (derived (params st)))])"

definition finishSimulation :: "derived_metrics \<Rightarrow> twin_state \<Rightarrow> twin_state" where
  "finishSimulation d st =
    (let impact' = (if js_gt (riskScore d) (Num 70) then high
                    else if js_gt (riskScore d) (Num 40) then medium else low)
     in st \<lparr> result := Some (Simulated \<lparr> predictedFailureRisk = riskScore d,
                 expectedTemperature = expectedTemp d,
                 sr_expectedVibration = expectedVibration d,
                 productionImpact = impact',
                 sr_remainingLife = remainingLife d \<rparr>),
             isSimulating := False \<rparr>)"

definition resetToDefault :: "twin_state \<Rightarrow> twin_state" where
  "resetToDefault st = st \<lparr> params := defaultParams, result := None,
     failureProbability := None, telemetryBuffer := [] \<rparr>"

text \<open>
  \<open>updateNumber(key, value)\<close>: the key is given by the update function of its field.
\<close>

definition updateNumber ::
    "((jsnum \<Rightarrow> jsnum) \<Rightarrow> SimulationParams \<Rightarrow> SimulationParams) \<Rightarrow> jsnum \<Rightarrow> twin_state \<Rightarrow> twin_state" where
  "updateNumber key v st = st \<lparr> params := key (\<lambda>_. v) (params st) \<rparr>"

text \<open>
  Running a timer callback on the state. The poll's callback is \<open>fetchTelemetry\<close>
  above, which needs the outcomes of its fetches; here it is the identity.
\<close>

fun run_callback :: "callback \<Rightarrow> twin_state \<Rightarrow> twin_state" where
  "run_callback ClearPredictionStatus st = st \<lparr> predictionStatus := None \<rparr>"
| "run_callback (FinishSimulation d) st = finishSimulation d st"
| "run_callback FetchTelemetry st = st"

text \<open>The states the component can be in: the initial one and what the handlers make of them.\<close>

inductive reachable :: "twin_state \<Rightarrow> bool" where
  r_init: "reachable initial_state"
| r_poll: "reachable st \<Longrightarrow> reachable (state_after (fetchTelemetry e thr pe st))"
| r_send: "reachable st \<Longrightarrow> reachable (m_state_after (handleSendToFriend ms mid t res st))"
| r_run: "reachable st \<Longrightarrow> reachable (fst (runSimulation st))"
| r_callback: "reachable st \<Longrightarrow> reachable (run_callback c st)"
| r_reset: "reachable st \<Longrightarrow> reachable (resetToDefault st)"
| r_update: "reachable st \<Longrightarrow> reachable (updateNumber key v st)"

section \<open>Fixtures\<close>

text \<open>
  Concrete inputs: a sample made of the default parameters, a poll in which every fetch
  succeeds and the predicted probability is 0.7, variants of it in which the effect is
  inactive or one of the fetches fails, a state whose buffer holds 49 samples, a response
  of the prediction proxy that is not OK, and a payload whose machine map has the empty
  string as its only key.
\<close>

definition sample_of :: "SimulationParams \<Rightarrow> jsnum \<Rightarrow> TelemetrySample" where
  "sample_of p t = SimulationParams.extend p
     (TelemetrySample.fields t ''B1'' ''Boiler 1'' (Num 0) True)"

definition sample0 :: TelemetrySample where
  "sample0 = sample_of defaultParams (Num 0)"

definition ok_poll :: poll_env where
  "ok_poll = \<lparr> telemetry_response = Json (JsonArray [sample0]),
     predict_response = Json \<lparr> pj_failure_probability = Some (Num (7 / 10)),
       pj_failureProbability = None, pj_failure = None \<rparr>,
     dispatch_response = Json (), now = Num 1000,
     active_after_telemetry = True, active_after_predict = True \<rparr>"






definition proxy_down :: "string response" where
  "proxy_down = NotOk 502 (Inr ''Bad Gateway'')"

definition empty_key_payload :: telemetry_json where
  "empty_key_payload = JsonObject \<lparr> machines = Some [('''', [sample0])] \<rparr>"

section \<open>Notions used to state the claims\<close>

text \<open>A fetch that rejects or returns a response that is not OK.\<close>

definition fetch_fails :: "'a response \<Rightarrow> bool" where
  "fetch_fails r = (case r of Rejects err \<Rightarrow> True | NotOk status t \<Rightarrow> True | _ \<Rightarrow> False)"


text \<open>
  The description of \<open>getLatestSample\<close> as the claim words it: null when the payload is
  null, an empty array, an object with no machines map, or when the series of the first
  machine key is missing or empty (\<open>claimed_null_condition\<close>), and otherwise the last
  element of the array or of that series (\<open>claimed_sample\<close>). \<open>first_key_empty\<close>
  says that the first key of the machine map is the empty string.
\<close>

definition claimed_null_condition :: "telemetry_json \<Rightarrow> bool" where
  "claimed_null_condition payload =
    (case payload of
       JsonNull \<Rightarrow> True
     | JsonArray xs \<Rightarrow> xs = []
     | JsonObject obj \<Rightarrow>
         (case machines obj of
            None \<Rightarrow> True
          | Some ms \<Rightarrow> (case ms of [] \<Rightarrow> True | (k, series) # rest \<Rightarrow> series = [])))"

definition first_key_empty :: "telemetry_json \<Rightarrow> bool" where
  "first_key_empty payload =
    (case payload of
       JsonObject obj \<Rightarrow>
         (case machines obj of
            Some ((k, series) # rest) \<Rightarrow> k = []
          | _ \<Rightarrow> False)
     | _ \<Rightarrow> False)"

definition claimed_sample :: "telemetry_json \<Rightarrow> TelemetrySample option" where
  "claimed_sample payload =
    (case payload of
       JsonNull \<Rightarrow> None
     | JsonArray xs \<Rightarrow> if xs = [] then None else Some (last xs)
     | JsonObject obj \<Rightarrow>
         (case machines obj of
            None \<Rightarrow> None
          | Some ms \<Rightarrow> (case ms of [] \<Rightarrow> None
               | (k, series) # rest \<Rightarrow> if series = [] then None else Some (last series))))"

section \<open>Properties of the number operations\<close>
















lemma clamp_NaN_iff: "clamp v (Num 0) (Num 100) = NaN \<longleftrightarrow> v = NaN"
  by (cases v) (auto simp: clamp_def Math_max_def Math_min_def)



section \<open>Properties of the derived metrics\<close>



























lemma Math_round_nearest:
  "\<exists>n. Math_round (Num a) = Num (real_of_int n) \<and> \<bar>real_of_int n - a\<bar> \<le> 1 / 2"
proof -
  have "real_of_int \<lfloor>a + 1 / 2\<rfloor> \<le> a + 1 / 2" "a + 1 / 2 < real_of_int \<lfloor>a + 1 / 2\<rfloor> + 1"
    by linarith+
  then have "\<bar>real_of_int \<lfloor>a + 1 / 2\<rfloor> - a\<bar> \<le> 1 / 2" by linarith
  then show ?thesis by auto
qed

section \<open>The claims about the derived metrics\<close>







section \<open>Properties of the telemetry functions\<close>

lemma last_index: "xs \<noteq> [] \<Longrightarrow> xs ! nat (int (length xs) - 1) = last xs"
  by (simp add: last_conv_nth nat_diff_distrib')

lemma getLatestSample_eq:
  "getLatestSample payload = Inr (if first_key_empty payload then None else claimed_sample payload)"
  by (cases payload)
    (auto simp: getLatestSample_def js_index_def js_length_def js_prop_def Object_keys_def Let_def
      first_key_empty_def claimed_sample_def last_index
      split: option.splits list.splits sum.splits)

lemma claimed_sample_None: "claimed_sample payload = None \<longleftrightarrow> claimed_null_condition payload"
  by (auto simp: claimed_sample_def claimed_null_condition_def split: telemetry_json.splits option.splits list.splits)

lemma buildPredictPayload_id: "buildPredictPayload xs = xs"
  by (simp add: buildPredictPayload_def)

lemma push_sample_eq: "push_sample s buf = drop (length buf + 1 - 200) (buf @ [s])"
  by (simp add: push_sample_def Let_def)

lemma push_sample_length: "length (push_sample s buf) = min 200 (length buf + 1)"
  by (simp add: push_sample_eq)

lemma push_sample_last: "last (push_sample s buf) = s"
  by (simp add: push_sample_eq)



lemma getLatestSample_returns: "\<exists>r. getLatestSample payload = Inr r"
  by (cases payload)
    (auto simp: getLatestSample_def js_index_def js_length_def js_prop_def Object_keys_def Let_def
      split: option.splits list.splits sum.splits)

lemma poll_telemetry_error:
  assumes "await_json ''Telemetry'' (telemetry_response pe) = Inl err"
  shows "fetchTelemetry e thr pe st =
     \<lparr> state_after = on_poll_error (active_after_telemetry pe) st,
       requests = [get_request (TELEMETRY_URL e)], caught = Some err, unhandled = None \<rparr>"
  using assms by (simp add: fetchTelemetry_def Let_def)

lemma poll_no_sample:
  assumes "await_json ''Telemetry'' (telemetry_response pe) = Inr payload"
    and "getLatestSample payload = Inr None"
  shows "fetchTelemetry e thr pe st =
     \<lparr> state_after = on_poll_error (active_after_telemetry pe) st,
       requests = [get_request (TELEMETRY_URL e)],
       caught = Some (Error ''No telemetry samples''), unhandled = None \<rparr>"
  using assms by (simp add: fetchTelemetry_def Let_def)

lemma poll_inactive:
  assumes "await_json ''Telemetry'' (telemetry_response pe) = Inr payload"
    and "getLatestSample payload = Inr (Some s)" and "\<not> active_after_telemetry pe"
  shows "fetchTelemetry e thr pe st =
     \<lparr> state_after = st, requests = [get_request (TELEMETRY_URL e)], caught = None,
       unhandled = None \<rparr>"
  using assms by (simp add: fetchTelemetry_def Let_def)

lemma poll_short_buffer:
  assumes "await_json ''Telemetry'' (telemetry_response pe) = Inr payload"
    and "getLatestSample payload = Inr (Some s)" and "active_after_telemetry pe"
    and "length (push_sample s (telemetryBuffer st)) < 50"
  shows "fetchTelemetry e thr pe st =
     \<lparr> state_after = sampled pe s st, requests = [get_request (TELEMETRY_URL e)], caught = None,
       unhandled = None \<rparr>"
  using assms by (simp add: fetchTelemetry_def Let_def sampled_def)

lemma poll_predict_error:
  assumes "await_json ''Telemetry'' (telemetry_response pe) = Inr payload"
    and "getLatestSample payload = Inr (Some s)" and "active_after_telemetry pe"
    and "50 \<le> length (push_sample s (telemetryBuffer st))"
    and "await_json ''Predict'' (predict_response pe) = Inl err"
  shows "fetchTelemetry e thr pe st =
     \<lparr> state_after = on_poll_error (active_after_predict pe) (sampled pe s st),
       requests = [get_request (TELEMETRY_URL e),
         post_request (PREDICT_URL e)
           (PredictBody (slice_last 50 (push_sample s (telemetryBuffer st))))],
       caught = Some err, unhandled = None \<rparr>"
  using assms by (simp add: fetchTelemetry_def Let_def sampled_def buildPredictPayload_id)

lemma poll_dispatch:
  assumes "await_json ''Telemetry'' (telemetry_response pe) = Inr payload"
    and "getLatestSample payload = Inr (Some s)" and "active_after_telemetry pe"
    and "50 \<le> length (push_sample s (telemetryBuffer st))"
    and "await_json ''Predict'' (predict_response pe) = Inr j"
  shows "fetchTelemetry e thr pe st =
     \<lparr> state_after = (sampled pe s st) \<lparr> failureProbability := Some (nextFailure j) \<rparr>,
       requests = [get_request (TELEMETRY_URL e),
         post_request (PREDICT_URL e)
           (PredictBody (slice_last 50 (push_sample s (telemetryBuffer st)))),
         (if js_ge (nextFailure j) thr
          then post_request (RETRAIN_URL e)
            (DispatchBody \<lparr> dp_failure_probability = nextFailure j, dp_timestamp = timestamp s,
                dp_machineId = machineId s, dp_machineName = machineName s, dp_sample = s \<rparr>
              (Some (slice_last 50 (push_sample s (telemetryBuffer st)))))
          else post_request (HARDWARE_URL e)
            (DispatchBody \<lparr> dp_failure_probability = nextFailure j, dp_timestamp = timestamp s,
                dp_machineId = machineId s, dp_machineName = machineName s, dp_sample = s \<rparr>
              None))],
       caught = None,
       unhandled = (case dispatch_response pe of Rejects err \<Rightarrow> Some err | _ \<Rightarrow> None) \<rparr>"
  using assms by (simp add: fetchTelemetry_def Let_def sampled_def buildPredictPayload_id)

lemma on_poll_error_buffer: "telemetryBuffer (on_poll_error a st) = telemetryBuffer st"
  by (simp add: on_poll_error_def)

lemma poll_buffer:
  "telemetryBuffer (state_after (fetchTelemetry e thr pe st)) = telemetryBuffer st \<or>
   (\<exists>s. telemetryBuffer (state_after (fetchTelemetry e thr pe st)) = push_sample s (telemetryBuffer st))"
proof (cases "await_json ''Telemetry'' (telemetry_response pe)")
  case (Inl err)
  then show ?thesis by (simp add: poll_telemetry_error on_poll_error_buffer)
next
  case (Inr payload)
  note p = this
  from getLatestSample_returns obtain r where r: "getLatestSample payload = Inr r" by blast
  show ?thesis
  proof (cases r)
    case None
    with p r show ?thesis by (simp add: poll_no_sample on_poll_error_buffer)
  next
    case (Some s)
    note s = r [unfolded Some]
    show ?thesis
    proof (cases "active_after_telemetry pe")
      case False
      with p s show ?thesis by (simp add: poll_inactive)
    next
      case True
      note a = this
      show ?thesis
      proof (cases "50 \<le> length (push_sample s (telemetryBuffer st))")
        case False
        then have "length (push_sample s (telemetryBuffer st)) < 50" by simp
        from poll_short_buffer [OF p s a this] show ?thesis by (auto simp: sampled_def)
      next
        case True
        note l = this
        show ?thesis
        proof (cases "await_json ''Predict'' (predict_response pe)")
          case (Inl err)
          from poll_predict_error [OF p s a l Inl] show ?thesis
            by (auto simp: sampled_def on_poll_error_buffer)
        next
          case (Inr j)
          from poll_dispatch [OF p s a l Inr] show ?thesis by (auto simp: sampled_def)
        qed
      qed
    qed
  qed
qed

lemma reachable_buffer: "reachable st \<Longrightarrow> length (telemetryBuffer st) \<le> 200"
proof (induction rule: reachable.induct)
  case r_init
  then show ?case by (simp add: initial_state_def)
next
  case (r_poll st e thr pe)
  with poll_buffer [of e thr pe st] show ?case
    by (auto simp: push_sample_length)
next
  case (r_send st ms mid t res)
  then show ?case by (simp add: handleSendToFriend_def Let_def split: sum.splits response.splits)
next
  case (r_run st)
  then show ?case by (simp add: runSimulation_def)
next
  case (r_callback st c)
  then show ?case by (cases c) (simp_all add: finishSimulation_def Let_def)
next
  case (r_reset st)
  then show ?case by (simp add: resetToDefault_def)
next
  case (r_update st key v)
  then show ?case by (simp add: updateNumber_def)
qed

lemma await_json_Json: "await_json l (Json v) = Inr v"
  by (simp add: await_json_def)


lemma latest_sample0: "getLatestSample (JsonArray [sample0]) = Inr (Some sample0)"
  by (simp add: getLatestSample_def js_index_def)







section \<open>The claims about the telemetry poll, the manual request and the sample lookup\<close>









text \<open>
  C8: when the manual request rejects or returns a response that is not OK, the error is
  caught, the state differs from the one before the call only in \<open>predictionStatus\<close>,
  which is \<open>Error:\<close> followed by the message, and \<open>isPredicting\<close>, which is
  false; the effect on that status registers one timeout of 3000 ms whose callback sets
  the status to null; \<open>result\<close> is unchanged, and is changed only by an OK response
  with a JSON body; one request was issued.
\<close>

theorem manual_prediction_failure:
  "(fetch_fails res \<longrightarrow>
      (\<exists>err. m_caught (handleSendToFriend ms mid t res st) = Some err
         \<and> m_state_after (handleSendToFriend ms mid t res st) =
             st \<lparr> isPredicting := False, predictionStatus := Some (''Error: '' @ message err) \<rparr>
         \<and> predictionStatusEffect (Some (''Error: '' @ message err)) =
             [After 3000 ClearPredictionStatus]
         \<and> due_all (predictionStatusEffect (Some (''Error: '' @ message err))) d =
             (if d = 3000 then [ClearPredictionStatus] else []))
      \<and> predictionStatus
           (run_callback ClearPredictionStatus (m_state_after (handleSendToFriend ms mid t res st))) = None
      \<and> result (m_state_after (handleSendToFriend ms mid t res st)) = result st
      \<and> length (m_requests (handleSendToFriend ms mid t res st)) = 1)
   \<and> (result (m_state_after (handleSendToFriend ms mid t res st)) = result st \<or>
       (\<exists>data. res = Json data \<and>
          result (m_state_after (handleSendToFriend ms mid t res st)) = Some (ApiResult data)))"
  by (cases res)
    (auto simp: handleSendToFriend_def Let_def fetch_fails_def predictionStatusEffect_def
      due_all_def split: sum.splits)

theorem manual_prediction_failure_witness:
  "fetch_fails proxy_down
   \<and> predictionStatus (m_state_after (handleSendToFriend [] ''B1'' (Num 0) proxy_down initial_state)) =
       Some ''Error: Bad Gateway''
   \<and> result (m_state_after (handleSendToFriend [] ''B1'' (Num 0) proxy_down initial_state)) = None
   \<and> length (m_requests (handleSendToFriend [] ''B1'' (Num 0) proxy_down initial_state)) = 1"
proof -
  have f: "fetch_fails proxy_down" by (simp add: proxy_down_def fetch_fails_def)
  have c: "m_caught (handleSendToFriend [] ''B1'' (Num 0) proxy_down initial_state) =
      Some (Error ''Bad Gateway'')"
    by (simp add: handleSendToFriend_def Let_def proxy_down_def)
  from manual_prediction_failure [of proxy_down "[]" "''B1''" "Num 0" initial_state 0] f
  obtain err where e: "m_caught (handleSendToFriend [] ''B1'' (Num 0) proxy_down initial_state) = Some err"
    "m_state_after (handleSendToFriend [] ''B1'' (Num 0) proxy_down initial_state) =
       initial_state \<lparr> isPredicting := False, predictionStatus := Some (''Error: '' @ message err) \<rparr>"
    and r: "result (m_state_after (handleSendToFriend [] ''B1'' (Num 0) proxy_down initial_state)) =
       result initial_state"
      "length (m_requests (handleSendToFriend [] ''B1'' (Num 0) proxy_down initial_state)) = 1"
    by blast
  from e(1) c have "err = Error ''Bad Gateway''" by simp
  with e(2) r f show ?thesis by (simp add: initial_state_def)
qed

text \<open>
  C9: the telemetry buffer never holds more than 200 samples. Every reachable state has
  at most 200; the append of lines 366 to 368 leaves the last \<open>min 200 (n + 1)\<close>
  samples of the old buffer followed by the new sample, in arrival order; and a poll that
  gets a sample while the effect is active leaves exactly that buffer.
\<close>

theorem telemetryBuffer_at_most_200:
  "(reachable st \<longrightarrow> length (telemetryBuffer st) \<le> 200)
   \<and> length (push_sample s buf) \<le> 200
   \<and> push_sample s buf = slice_last (min 200 (length buf + 1)) (buf @ [s])
   \<and> (telemetry_response pe = Json payload \<and> getLatestSample payload = Inr (Some s) \<and>
        active_after_telemetry pe \<longrightarrow>
      telemetryBuffer (state_after (fetchTelemetry e thr pe st)) =
        push_sample s (telemetryBuffer st))"
proof -
  have "telemetryBuffer (state_after (fetchTelemetry e thr pe st)) =
        push_sample s (telemetryBuffer st)"
    if p: "await_json ''Telemetry'' (telemetry_response pe) = Inr payload"
      and s: "getLatestSample payload = Inr (Some s)" and a: "active_after_telemetry pe"
  proof (cases "50 \<le> length (push_sample s (telemetryBuffer st))")
    case False
    then have "length (push_sample s (telemetryBuffer st)) < 50" by simp
    from poll_short_buffer [OF p s a this] show ?thesis by (simp add: sampled_def)
  next
    case True
    show ?thesis
    proof (cases "await_json ''Predict'' (predict_response pe)")
      case (Inl err)
      from poll_predict_error [OF p s a True Inl] show ?thesis
        by (simp add: sampled_def on_poll_error_buffer)
    next
      case (Inr j)
      from poll_dispatch [OF p s a True Inr] show ?thesis by (simp add: sampled_def)
    qed
  qed
  then have poll: "telemetry_response pe = Json payload \<and> getLatestSample payload = Inr (Some s) \<and>
        active_after_telemetry pe \<longrightarrow>
      telemetryBuffer (state_after (fetchTelemetry e thr pe st)) =
        push_sample s (telemetryBuffer st)"
    by (simp add: await_json_Json)
  have slice: "push_sample s buf = slice_last (min 200 (length buf + 1)) (buf @ [s])"
    by (cases "length buf \<le> 199") (simp_all add: push_sample_eq slice_last_def min_def)
  have len: "length (push_sample s buf) \<le> 200"
    by (simp add: push_sample_length)
  from reachable_buffer len slice poll show ?thesis by blast
qed

theorem telemetryBuffer_at_most_200_witness:
  "reachable initial_state
   \<and> length (telemetryBuffer initial_state) \<le> 200
   \<and> length (push_sample sample0 (replicate 200 sample0)) \<le> 200
   \<and> telemetry_response ok_poll = Json (JsonArray [sample0])
   \<and> getLatestSample (JsonArray [sample0]) = Inr (Some sample0)
   \<and> active_after_telemetry ok_poll
   \<and> telemetryBuffer (state_after (fetchTelemetry default_env (Num (6 / 10)) ok_poll initial_state)) =
       push_sample sample0 (telemetryBuffer initial_state)"
proof -
  have h: "telemetry_response ok_poll = Json (JsonArray [sample0])" "active_after_telemetry ok_poll"
    by (simp_all add: ok_poll_def)
  from telemetryBuffer_at_most_200 [of initial_state sample0 "replicate 200 sample0" ok_poll
      "JsonArray [sample0]" default_env "Num (6 / 10)"]
  show ?thesis using h latest_sample0 r_init by blast
qed

text \<open>
  C10, as stated, fails: for an object whose machine map has the empty string as its
  first key, \<open>getLatestSample\<close> returns null although that key's series is present and
  not empty (\<open>machineKey ? ... : null\<close> takes the empty key for no key).
\<close>

theorem getLatestSample_counterexample:
  "getLatestSample empty_key_payload = Inr None \<and> \<not> claimed_null_condition empty_key_payload"
  by (simp add: getLatestSample_eq first_key_empty_def empty_key_payload_def claimed_null_condition_def)

text \<open>
  C10, amended: \<open>getLatestSample\<close> never throws; it returns null exactly when the
  payload is null, is an empty array, is an object with no machines map, the map has no
  key, the first key's series is empty, or the first key is the empty string; otherwise
  it returns the last element of the array or of the first key's series.
\<close>

theorem getLatestSample_total_and_null:
  "(\<exists>r. getLatestSample payload = Inr r)
   \<and> (getLatestSample payload = Inr None) = (claimed_null_condition payload \<or> first_key_empty payload)
   \<and> (if claimed_null_condition payload \<or> first_key_empty payload then getLatestSample payload = Inr None
      else getLatestSample payload = Inr (claimed_sample payload))"
  using claimed_sample_None [of payload] by (auto simp add: getLatestSample_eq)

end
